theory Spec2Isabelle
  imports Complex_Main
begin

section \<open>Python values and errors\<close>

text \<open>
  Every exception the embedded code can raise is a value. \<open>KeyError\<close> carries the key
  that was looked up, as Python's does.
\<close>

datatype error =
    KeyError string
  | IndexError
  | TypeError
  | ValueError
  | RuntimeError
  | OverflowError

text \<open>Sequencing of fallible steps: the first exception ends the computation.\<close>

fun and_then :: "error + 'a \<Rightarrow> ('a \<Rightarrow> error + 'b) \<Rightarrow> error + 'b" where
  "and_then (Inl e) f = Inl e"
| "and_then (Inr x) f = f x"

section \<open>Tensors (the part of torch the wrapper uses)\<close>

text \<open>
  A tensor is a nested array: \<open>Scalar v\<close> has no axis, \<open>Arr xs\<close> has one more axis than its
  children. \<open>vec\<close> and \<open>mat\<close> build the shapes \<open>[D]\<close> and \<open>[H, D]\<close> the source's comments
  speak of. The element type stands for the dtype: no operation below converts an element.
\<close>

datatype 'a tensor = is_Scalar: Scalar 'a | Arr (children: "'a tensor list")

definition vec :: "'a list \<Rightarrow> 'a tensor" where
  "vec xs = Arr (map Scalar xs)"

definition mat :: "'a list list \<Rightarrow> 'a tensor" where
  "mat rows = Arr (map vec rows)"

fun shape :: "'a tensor \<Rightarrow> nat list" where
  "shape (Scalar v) = []"
| "shape (Arr []) = [0]"
| "shape (Arr (x # xs)) = Suc (length xs) # shape x"

definition ndim :: "'a tensor \<Rightarrow> nat" where
  "ndim x = length (shape x)"

text \<open>\<open>x.item()\<close>: the single element of a one-element tensor.\<close>

fun tensor_item :: "'a tensor \<Rightarrow> error + 'a" where
  "tensor_item (Scalar v) = Inr v"
| "tensor_item (Arr [x]) = tensor_item x"
| "tensor_item (Arr xs) = Inl RuntimeError"

text \<open>
  Python's \<open>xs[lo:hi]\<close> on a sequence of length \<open>n\<close>: a negative bound counts from the
  end, every bound is cut to \<open>[0, n]\<close>, and the result is empty when the bounds cross.
\<close>

definition slice_bound :: "nat \<Rightarrow> int \<Rightarrow> nat" where
  "slice_bound n i = (if i < 0 then nat (int n + i) else min (nat i) n)"

definition py_slice :: "int \<Rightarrow> int option \<Rightarrow> 'a list \<Rightarrow> 'a list" where
  "py_slice lo hi xs =
     (let n = length xs;
          i = slice_bound n lo;
          j = (case hi of None \<Rightarrow> n | Some h \<Rightarrow> slice_bound n h)
      in drop i (take j xs))"

text \<open>\<open>x[..., lo:hi]\<close>: the slice is taken on the last axis, below every leading axis.\<close>

fun slice_last :: "int \<Rightarrow> int option \<Rightarrow> 'a tensor \<Rightarrow> 'a tensor" where
  "slice_last lo hi (Scalar v) = Scalar v"
| "slice_last lo hi (Arr xs) =
     (if list_all is_Scalar xs then Arr (py_slice lo hi xs)
      else Arr (map (slice_last lo hi) xs))"

text \<open>A tensor without an axis cannot be sliced: torch raises \<open>IndexError\<close>.\<close>

definition getitem_last :: "'a tensor \<Rightarrow> int \<Rightarrow> int option \<Rightarrow> error + 'a tensor" where
  "getitem_last x lo hi = (if ndim x = 0 then Inl IndexError else Inr (slice_last lo hi x))"

text \<open>Joining two tensors along the last axis, row by row below the leading axes.\<close>

function cat_last :: "'a tensor \<Rightarrow> 'a tensor \<Rightarrow> 'a tensor" where
  "cat_last (Arr xs) (Arr ys) =
     (if list_all is_Scalar xs \<and> list_all is_Scalar ys then Arr (xs @ ys)
      else Arr (map2 cat_last xs ys))"
| "cat_last (Scalar v) b = Scalar v"
| "cat_last (Arr xs) (Scalar v) = Arr xs"
  by pat_completeness auto
termination
proof (relation "measure (\<lambda>(a, b). size a)")
  show "wf (measure (\<lambda>(a, b). size a))" by simp
next
  fix xs ys :: "'a tensor list" and z x y
  assume "z \<in> set (zip xs ys)" and "(x, y) = z"
  then have "x \<in> set xs" by (auto dest: set_zip_leftD)
  then have "size x \<le> size_list size xs" by (rule size_list_estimation') simp
  then show "((x, y), (Arr xs, Arr ys)) \<in> measure (\<lambda>(a, b). size a)" by simp
qed

text \<open>
  \<open>torch.cat(parts, dim=-1)\<close>. Tensors of shape \<open>[0]\<close> are skipped (torch's rule for empty
  one-axis tensors); the others must have an axis and agree on every axis but the last,
  else \<open>RuntimeError\<close>. An empty list of parts is an error too.
\<close>

definition torch_cat :: "'a tensor list \<Rightarrow> error + 'a tensor" where
  "torch_cat parts =
     (case filter (\<lambda>p. shape p \<noteq> [0]) parts of
        [] \<Rightarrow> (if parts = [] then Inl RuntimeError else Inr (Arr []))
      | p # rest \<Rightarrow>
          if 1 \<le> ndim p \<and> list_all (\<lambda>q. butlast (shape q) = butlast (shape p)) rest
          then Inr (foldl cat_last p rest)
          else Inl RuntimeError)"

text \<open>
  \<open>torch.stack(ts, dim=0)\<close>: a new leading axis over tensors of one shape;
  \<open>RuntimeError\<close> on an empty list or on differing shapes.
\<close>

definition torch_stack :: "'a tensor list \<Rightarrow> error + 'a tensor" where
  "torch_stack ts =
     (case ts of
        [] \<Rightarrow> Inl RuntimeError
      | t # rest \<Rightarrow>
          if list_all (\<lambda>q. shape q = shape t) rest then Inr (Arr ts) else Inl RuntimeError)"

text \<open>\<open>t[i]\<close> on a one-axis tensor: a negative index counts from the end.\<close>

definition tensor_index :: "'a list \<Rightarrow> int \<Rightarrow> error + 'a" where
  "tensor_index xs i =
     (if 0 \<le> i \<and> i < int (length xs) then Inr (xs ! nat i)
      else if - int (length xs) \<le> i \<and> i < 0 then Inr (xs ! nat (int (length xs) + i))
      else Inl IndexError)"

section \<open>Items: the per-frame records of the dataset\<close>

text \<open>
  The numbers a tensor holds: integers, finite floats (each is a rational) and the three
  non-finite floats. \<open>int(v)\<close> truncates a finite float towards zero and raises on the
  others.
\<close>

datatype scalar = IntV int | FloatV rat | NaN | PosInf | NegInf


fun py_int :: "scalar \<Rightarrow> error + int" where
  "py_int (IntV i) = Inr i"
| "py_int (FloatV r) = Inr (if 0 \<le> r then \<lfloor>r\<rfloor> else \<lceil>r\<rceil>)"
| "py_int NaN = Inl ValueError"
| "py_int PosInf = Inl OverflowError"
| "py_int NegInf = Inl OverflowError"

text \<open>
  What an item maps a key to: a torch tensor, a numpy array, a plain Python number, or
  \<open>None\<close>. Only the first is an instance of \<open>torch.Tensor\<close>.
\<close>

datatype pyval = Tensor "scalar tensor" | NdArray "scalar tensor" | Number scalar | PyNone

type_synonym item = "string \<rightharpoonup> pyval"

text \<open>\<open>item[k]\<close>\<close>

definition py_getitem :: "item \<Rightarrow> string \<Rightarrow> error + pyval" where
  "py_getitem item k = (case item k of None \<Rightarrow> Inl (KeyError k) | Some v \<Rightarrow> Inr v)"

text \<open>\<open>_ensure_tensor\<close>: a tensor is returned as it is, anything else goes through
  \<open>torch.as_tensor\<close>.\<close>

fun ensure_tensor :: "pyval \<Rightarrow> error + scalar tensor" where
  "ensure_tensor (Tensor t) = Inr t"
| "ensure_tensor (NdArray t) = Inr t"
| "ensure_tensor (Number v) = Inr (Scalar v)"
| "ensure_tensor PyNone = Inl RuntimeError"

section \<open>The modality descriptor (\<open>_parse_vector_specs\<close>)\<close>

text \<open>
  One entry of a descriptor block, as \<open>json.load\<close> delivers it: each of the three fields
  may be absent; \<open>start\<close> and \<open>end\<close>, when present, are JSON integers. A block is the list
  of its \<open>(feature name, entry)\<close> pairs in the order \<open>block.items()\<close> yields them.
\<close>

record cfg =
  cfg_original_key :: "string option"
  cfg_start :: "int option"
  cfg_end :: "int option"

record spec =
  original_key :: string
  sp_start :: int
  sp_end :: int

text \<open>\<open>cfg.get(k, default)\<close>\<close>

definition get_default :: "'a option \<Rightarrow> 'a \<Rightarrow> 'a" where
  "get_default field d = (case field of None \<Rightarrow> d | Some v \<Rightarrow> v)"

text \<open>
  The dictionary the loop body appends: \<open>cfg["original_key"]\<close> raises \<open>KeyError\<close> when the
  entry has no such field; \<open>start\<close> and \<open>end\<close> fall back to \<open>0\<close> and \<open>-1\<close>.
\<close>

definition make_spec :: "cfg \<Rightarrow> error + spec" where
  "make_spec c =
     (case cfg_original_key c of
        None \<Rightarrow> Inl (KeyError ''original_key'')
      | Some k \<Rightarrow>
          Inr \<lparr>original_key = k,
               sp_start = get_default (cfg_start c) 0,
               sp_end = get_default (cfg_end c) (- 1)\<rparr>)"

fun parse_vector_specs :: "(string \<times> cfg) list \<Rightarrow> error + spec list" where
  "parse_vector_specs [] = Inr []"
| "parse_vector_specs ((name, c) # block) =
     and_then (make_spec c) (\<lambda>sp.
     and_then (parse_vector_specs block) (\<lambda>specs. Inr (sp # specs)))"


text \<open>The field spec of an entry that has an \<open>original_key\<close>.\<close>

definition entry_spec :: "string \<times> cfg \<Rightarrow> spec" where
  "entry_spec e =
     \<lparr>original_key = the (cfg_original_key (snd e)),
      sp_start = get_default (cfg_start (snd e)) 0,
      sp_end = get_default (cfg_end (snd e)) (- 1)\<rparr>"

section \<open>The dataset wrapper (\<open>ModalityAwareLeRobotDataset\<close>)\<close>

text \<open>
  \<open>episode_data_index\<close> holds the tensors \<open>"from"\<close> and \<open>"to"\<close>. \<open>hf_dataset\<close> is the frame
  store, column by column; \<open>super_getitem\<close> is \<open>LeRobotDataset.__getitem__\<close>, which the
  wrapper calls and does not define.
\<close>

record episode_data_index =
  ep_from :: "int list"
  ep_to :: "int list"

record hf_dataset =
  num_rows :: nat
  columns :: "string \<rightharpoonup> scalar tensor list"

record dataset =
  action_horizon :: int
  state_key :: string
  action_key :: string
  state_specs :: "spec list"
  action_specs :: "spec list"
  ep_index :: episode_data_index
  hf_store :: hf_dataset
  super_getitem :: "int \<Rightarrow> error + item"


text \<open>
  \<open>hf_dataset.select(indices)\<close> keeps the rows at the given positions, \<open>IndexError\<close> when a
  position is outside \<open>[0, num_rows)\<close>; \<open>ds[orig]\<close> is the column, \<open>KeyError\<close> when the
  store has none of that name.
\<close>

definition hf_select :: "hf_dataset \<Rightarrow> int list \<Rightarrow> error + hf_dataset" where
  "hf_select ds indices =
     (if list_all (\<lambda>i. 0 \<le> i \<and> i < int (num_rows ds)) indices
      then Inr \<lparr>num_rows = length indices,
               columns = (\<lambda>k. map_option (\<lambda>col. map (\<lambda>i. col ! nat i) indices) (columns ds k))\<rparr>
      else Inl IndexError)"

definition hf_column :: "hf_dataset \<Rightarrow> string \<Rightarrow> error + scalar tensor list" where
  "hf_column ds orig = (case columns ds orig of None \<Rightarrow> Inl (KeyError orig) | Some col \<Rightarrow> Inr col)"

text \<open>\<open>_slice_last_dim\<close>\<close>

definition slice_last_dim :: "'a tensor \<Rightarrow> int \<Rightarrow> int \<Rightarrow> error + 'a tensor" where
  "slice_last_dim x start end_ix =
     (if end_ix = - 1 then getitem_last x start None else getitem_last x start (Some end_ix))"

text \<open>
  The last line of both composers:
  \<open>torch.cat(parts, dim=-1) if len(parts) > 1 else parts[0]\<close>.
\<close>

definition cat_parts :: "'a tensor list \<Rightarrow> error + 'a tensor" where
  "cat_parts parts =
     (if 1 < length parts then torch_cat parts
      else (case parts of [] \<Rightarrow> Inl IndexError | p # ps \<Rightarrow> Inr p))"

text \<open>\<open>_compose_state\<close>: the loop, then the last line.\<close>

fun state_parts :: "spec list \<Rightarrow> item \<Rightarrow> error + scalar tensor list" where
  "state_parts [] item = Inr []"
| "state_parts (sp # sps) item =
     and_then (py_getitem item (original_key sp)) (\<lambda>v.
     and_then (ensure_tensor v) (\<lambda>x.
     and_then (slice_last_dim x (sp_start sp) (sp_end sp)) (\<lambda>p.
     and_then (state_parts sps item) (\<lambda>parts. Inr (p # parts)))))"

definition compose_state :: "dataset \<Rightarrow> item \<Rightarrow> error + scalar tensor" where
  "compose_state self item = and_then (state_parts (state_specs self) item) cat_parts"

text \<open>
  What \<open>_slice_last_dim\<close> selects from a field that is a vector: \<open>[start:]\<close> when \<open>end\<close> is
  \<open>-1\<close>, else \<open>[start:end]\<close>.
\<close>

definition spec_slice :: "spec \<Rightarrow> 'a list \<Rightarrow> 'a list" where
  "spec_slice sp xs =
     (if sp_end sp = - 1 then py_slice (sp_start sp) None xs
      else py_slice (sp_start sp) (Some (sp_end sp)) xs)"


section \<open>The horizon window (\<open>_compose_action\<close>, line 114)\<close>

text \<open>\<open>range(H)\<close>: the integers \<open>0, ..., H - 1\<close>; empty when \<open>H \<le> 0\<close>.\<close>

definition py_range :: "int \<Rightarrow> int list" where
  "py_range H = [0..H - 1]"

text \<open>\<open>indices = [min(max(idx + t, ep_start), ep_end - 1) for t in range(H)]\<close>\<close>

definition clamped_indices :: "int \<Rightarrow> int \<Rightarrow> int \<Rightarrow> int \<Rightarrow> int list" where
  "clamped_indices idx ep_start ep_end H =
     map (\<lambda>t. min (max (idx + t) ep_start) (ep_end - 1)) (py_range H)"

section \<open>Action composition and \<open>__getitem__\<close>\<close>

text \<open>
  Line 111: \<open>int(item["episode_index"].item())\<close> for a tensor, \<open>int(item["episode_index"])\<close>
  otherwise. \<open>int\<close> of a numpy array goes through its single element; \<open>int(None)\<close> is a
  \<open>TypeError\<close>.
\<close>

definition numpy_int :: "scalar tensor \<Rightarrow> error + int" where
  "numpy_int t = (case tensor_item t of Inl e \<Rightarrow> Inl TypeError | Inr v \<Rightarrow> py_int v)"

definition episode_of :: "item \<Rightarrow> error + int" where
  "episode_of item =
     and_then (py_getitem item ''episode_index'') (\<lambda>v.
       case v of
         Tensor t \<Rightarrow> and_then (tensor_item t) py_int
       | NdArray t \<Rightarrow> numpy_int t
       | Number n \<Rightarrow> py_int n
       | PyNone \<Rightarrow> Inl TypeError)"


text \<open>Lines 125 and 126: the fallback, a gather from the store and a stack.\<close>

definition gather :: "dataset \<Rightarrow> int list \<Rightarrow> string \<Rightarrow> error + scalar tensor" where
  "gather self indices orig =
     and_then (hf_select (hf_store self) indices) (\<lambda>sel.
     and_then (hf_column sel orig) torch_stack)"

text \<open>Lines 120 to 126: the tensor \<open>x\<close> of one spec.\<close>

definition action_source :: "dataset \<Rightarrow> item \<Rightarrow> int list \<Rightarrow> string \<Rightarrow> error + scalar tensor" where
  "action_source self item indices orig =
     (case item orig of
        Some (Tensor t) \<Rightarrow> if 2 \<le> ndim t then Inr t else gather self indices orig
      | Some v \<Rightarrow> gather self indices orig
      | None \<Rightarrow> gather self indices orig)"

fun action_parts :: "dataset \<Rightarrow> item \<Rightarrow> int list \<Rightarrow> spec list \<Rightarrow> error + scalar tensor list" where
  "action_parts self item indices [] = Inr []"
| "action_parts self item indices (sp # sps) =
     and_then (action_source self item indices (original_key sp)) (\<lambda>x.
     and_then (slice_last_dim x (sp_start sp) (sp_end sp)) (\<lambda>p.
     and_then (action_parts self item indices sps) (\<lambda>parts. Inr (p # parts))))"

text \<open>Lines 111 to 114: the episode of the item, its range, and the clamped window.\<close>

definition episode_window :: "dataset \<Rightarrow> item \<Rightarrow> int \<Rightarrow> error + int list" where
  "episode_window self item idx =
     and_then (episode_of item) (\<lambda>ep_idx.
     and_then (tensor_index (ep_from (ep_index self)) ep_idx) (\<lambda>ep_start.
     and_then (tensor_index (ep_to (ep_index self)) ep_idx) (\<lambda>ep_end.
     Inr (clamped_indices idx ep_start ep_end (action_horizon self)))))"

text \<open>\<open>_compose_action\<close>\<close>

definition compose_action :: "dataset \<Rightarrow> item \<Rightarrow> int \<Rightarrow> error + scalar tensor" where
  "compose_action self item idx =
     and_then (episode_window self item idx) (\<lambda>indices.
     and_then (action_parts self item indices (action_specs self)) cat_parts)"

text \<open>
  \<open>__getitem__\<close>: the state is stored under \<open>state_key\<close> first, and the action is composed
  from the item that already holds it.
\<close>

definition getitem :: "dataset \<Rightarrow> int \<Rightarrow> error + item" where
  "getitem self idx =
     and_then (super_getitem self idx) (\<lambda>item.
     and_then (compose_state self item) (\<lambda>s.
     and_then (compose_action self (item(state_key self \<mapsto> Tensor s)) idx) (\<lambda>a.
     Inr ((item(state_key self \<mapsto> Tensor s))(action_key self \<mapsto> Tensor a)))))"

section \<open>The raw values behind a composition\<close>




section \<open>Example data\<close>

text \<open>
  The composition example of the spec: the state block takes \<open>obs.pos[0:3]\<close> and all of
  \<open>obs.vel\<close>; the frame belongs to episode \<open>0\<close>, which covers the three rows of the store.
\<close>

definition ex_item :: item where
  "ex_item =
     [''obs.pos'' \<mapsto> Tensor (vec [IntV 1, IntV 2, IntV 3, IntV 9, IntV 9]),
      ''obs.vel'' \<mapsto> Tensor (vec [IntV 4, IntV 5]),
      ''episode_index'' \<mapsto> Tensor (Scalar (IntV 0))]"

definition ex_store :: hf_dataset where
  "ex_store =
     \<lparr>num_rows = 3,
      columns = [''act'' \<mapsto> [vec [IntV 10, IntV 11], vec [IntV 20, IntV 21], vec [IntV 30, IntV 31]]]\<rparr>"

definition ex_dataset :: dataset where
  "ex_dataset =
     \<lparr>action_horizon = 4, state_key = ''state'', action_key = ''action'',
      state_specs = [\<lparr>original_key = ''obs.pos'', sp_start = 0, sp_end = 3\<rparr>,
                     \<lparr>original_key = ''obs.vel'', sp_start = 0, sp_end = - 1\<rparr>],
      action_specs = [\<lparr>original_key = ''act'', sp_start = 0, sp_end = - 1\<rparr>],
      ep_index = \<lparr>ep_from = [0], ep_to = [3]\<rparr>,
      hf_store = ex_store,
      super_getitem = (\<lambda>i. Inr ex_item)\<rparr>"




definition ex_item_clash :: item where
  "ex_item_clash = ex_item(''state'' \<mapsto> Tensor (vec [IntV 7]))"

definition ex_dataset_clash :: dataset where
  "ex_dataset_clash = ex_dataset\<lparr>super_getitem := (\<lambda>i. Inr ex_item_clash)\<rparr>"









section \<open>Properties of the horizon window\<close>

lemma length_py_range: "length (py_range H) = nat H"
  by (simp add: py_range_def)

lemma nth_py_range: "t < nat H \<Longrightarrow> py_range H ! t = int t"
  by (simp add: py_range_def)

lemma length_clamped_indices: "length (clamped_indices idx s e H) = nat H"
  by (simp add: clamped_indices_def length_py_range)

lemma nth_clamped_indices:
  "t < nat H \<Longrightarrow> clamped_indices idx s e H ! t = min (max (idx + int t) s) (e - 1)"
  by (simp add: clamped_indices_def length_py_range nth_py_range)

lemma clamped_indices_bounds:
  assumes "s < e" and "i \<in> set (clamped_indices idx s e H)"
  shows "s \<le> i \<and> i \<le> e - 1"
  using assms by (auto simp: clamped_indices_def)

lemma sorted_clamped_indices: "sorted (clamped_indices idx s e H)"
proof -
  have "t \<le> u \<Longrightarrow> u < nat H \<Longrightarrow>
        clamped_indices idx s e H ! t \<le> clamped_indices idx s e H ! u" for t u
    by (simp add: nth_clamped_indices) linarith
  then show ?thesis
    by (simp add: sorted_iff_nth_mono length_clamped_indices)
qed

text \<open>
  C1. For an episode with \<open>ep_start < ep_end\<close>, any frame index and any horizon: the
  window has \<open>H\<close> entries, its \<open>t\<close>-th entry is \<open>min (max (idx + t) ep_start) (ep_end - 1)\<close>,
  every entry lies in \<open>[ep_start, ep_end - 1]\<close>, the entries never decrease, an entry equal
  to \<open>ep_end - 1\<close> is followed only by \<open>ep_end - 1\<close>, and from \<open>idx \<ge> ep_end - 1\<close> on every
  entry is \<open>ep_end - 1\<close>. Nothing here needs \<open>idx\<close> to lie inside the episode.
\<close>

theorem C1_clamped_window:
  assumes "ep_start < ep_end"
  shows "length (clamped_indices idx ep_start ep_end H) = nat H
    \<and> (\<forall>t < nat H. clamped_indices idx ep_start ep_end H ! t
          = min (max (idx + int t) ep_start) (ep_end - 1))
    \<and> (\<forall>i \<in> set (clamped_indices idx ep_start ep_end H). ep_start \<le> i \<and> i \<le> ep_end - 1)
    \<and> sorted (clamped_indices idx ep_start ep_end H)
    \<and> (\<forall>t u. t \<le> u \<and> u < nat H \<and> clamped_indices idx ep_start ep_end H ! t = ep_end - 1
          \<longrightarrow> clamped_indices idx ep_start ep_end H ! u = ep_end - 1)
    \<and> (ep_end - 1 \<le> idx
          \<longrightarrow> clamped_indices idx ep_start ep_end H = replicate (nat H) (ep_end - 1))"
proof (intro conjI)
  show "length (clamped_indices idx ep_start ep_end H) = nat H"
    by (rule length_clamped_indices)
  show "\<forall>t < nat H. clamped_indices idx ep_start ep_end H ! t
          = min (max (idx + int t) ep_start) (ep_end - 1)"
    by (simp add: nth_clamped_indices)
  show "\<forall>i \<in> set (clamped_indices idx ep_start ep_end H). ep_start \<le> i \<and> i \<le> ep_end - 1"
    using clamped_indices_bounds [OF assms] by blast
  show "sorted (clamped_indices idx ep_start ep_end H)"
    by (rule sorted_clamped_indices)
  show "\<forall>t u. t \<le> u \<and> u < nat H \<and> clamped_indices idx ep_start ep_end H ! t = ep_end - 1
          \<longrightarrow> clamped_indices idx ep_start ep_end H ! u = ep_end - 1"
  proof (intro allI impI)
    fix t u
    assume h: "t \<le> u \<and> u < nat H \<and> clamped_indices idx ep_start ep_end H ! t = ep_end - 1"
    then have "t < nat H" by linarith
    with h have "min (max (idx + int t) ep_start) (ep_end - 1) = ep_end - 1"
      by (simp add: nth_clamped_indices)
    with h assms have "min (max (idx + int u) ep_start) (ep_end - 1) = ep_end - 1"
      by linarith
    with h show "clamped_indices idx ep_start ep_end H ! u = ep_end - 1"
      by (simp add: nth_clamped_indices)
  qed
  show "ep_end - 1 \<le> idx
          \<longrightarrow> clamped_indices idx ep_start ep_end H = replicate (nat H) (ep_end - 1)"
  proof
    assume "ep_end - 1 \<le> idx"
    with assms have "t < nat H \<Longrightarrow>
        clamped_indices idx ep_start ep_end H ! t = ep_end - 1" for t
      by (simp add: nth_clamped_indices)
    then show "clamped_indices idx ep_start ep_end H = replicate (nat H) (ep_end - 1)"
      by (simp add: list_eq_iff_nth_eq length_clamped_indices)
  qed
qed

text \<open>The spec's example: episode \<open>[10, 15)\<close>, \<open>idx = 13\<close>, \<open>H = 4\<close>.\<close>

theorem C1_clamped_window_witness:
  "(10::int) < 15
    \<and> length (clamped_indices 13 10 15 4) = 4
    \<and> clamped_indices 13 10 15 4 = [13, 14, 14, 14]
    \<and> sorted (clamped_indices 13 10 15 4)
    \<and> clamped_indices 14 10 15 4 = replicate 4 14"
proof -
  have a: "(10::int) < 15" by simp
  have e: "clamped_indices 13 10 15 4 = [13, 14, 14, 14]"
    by (simp add: clamped_indices_def py_range_def upto.simps)
  from C1_clamped_window [OF a, of 13 4] have "sorted (clamped_indices 13 10 15 4)"
    by blast
  moreover from C1_clamped_window [OF a, of 14 4]
  have "clamped_indices 14 10 15 4 = replicate 4 14"
    by simp
  ultimately show ?thesis using e by simp
qed

section \<open>State composition on vector frames\<close>

lemma shape_vec: "shape (vec xs) = [length xs]"
  by (cases xs) (simp_all add: vec_def)

lemma ndim_vec: "ndim (vec xs) = 1"
  by (simp add: ndim_def shape_vec)














section \<open>Parsing the descriptor\<close>

lemma py_slice_whole: "py_slice 0 None xs = xs"
  by (simp add: py_slice_def slice_bound_def)

lemma slice_last_whole: "slice_last 0 None x = x"
proof (induction x)
  case (Scalar v)
  show ?case by simp
next
  case (Arr xs)
  then have "map (slice_last 0 None) xs = xs"
    by (simp add: map_idI)
  then show ?case by (simp add: py_slice_whole)
qed

lemma slice_last_dim_whole: "1 \<le> ndim x \<Longrightarrow> slice_last_dim x 0 (- 1) = Inr x"
  by (simp add: slice_last_dim_def getitem_last_def slice_last_whole)

lemma parse_vector_specs_eq:
  "parse_vector_specs block =
     (if list_all (\<lambda>e. cfg_original_key (snd e) \<noteq> None) block
      then Inr (map entry_spec block)
      else Inl (KeyError ''original_key''))"
proof (induction block)
  case Nil
  show ?case by simp
next
  case (Cons e block)
  obtain name c where e: "e = (name, c)" by (cases e)
  show ?case
  proof (cases "cfg_original_key c")
    case None
    with e show ?thesis by (simp add: make_spec_def)
  next
    case (Some k)
    with e Cons show ?thesis by (simp add: make_spec_def entry_spec_def)
  qed
qed



text \<open>
  C10. When every entry of a block has an \<open>original_key\<close>, parsing succeeds whether or not
  \<open>start\<close> and \<open>end\<close> are there: an absent \<open>start\<close> becomes \<open>0\<close>, an absent \<open>end\<close> becomes
  \<open>-1\<close>, and a spec with both defaults selects the whole field: \<open>_slice_last_dim\<close> returns
  any tensor with an axis unchanged.
\<close>

theorem C10_parse_defaults:
  assumes "list_all (\<lambda>e. cfg_original_key (snd e) \<noteq> None) block"
  shows "\<exists>specs. parse_vector_specs block = Inr specs \<and> length specs = length block
    \<and> (\<forall>i < length block.
          cfg_original_key (snd (block ! i)) = Some (original_key (specs ! i))
          \<and> (cfg_start (snd (block ! i)) = None \<longrightarrow> sp_start (specs ! i) = 0)
          \<and> (cfg_end (snd (block ! i)) = None \<longrightarrow> sp_end (specs ! i) = - 1)
          \<and> (cfg_start (snd (block ! i)) = None \<and> cfg_end (snd (block ! i)) = None \<longrightarrow>
                (\<forall>xs :: scalar list. spec_slice (specs ! i) xs = xs)
                \<and> (\<forall>x :: scalar tensor. 1 \<le> ndim x \<longrightarrow>
                      slice_last_dim x (sp_start (specs ! i)) (sp_end (specs ! i)) = Inr x)))"
proof (intro exI conjI allI impI)
  show "parse_vector_specs block = Inr (map entry_spec block)"
    using assms by (simp add: parse_vector_specs_eq)
  show "length (map entry_spec block) = length block" by simp
next
  fix i assume i: "i < length block"
  with assms have "cfg_original_key (snd (block ! i)) \<noteq> None"
    by (simp add: list_all_length)
  with i show "cfg_original_key (snd (block ! i)) = Some (original_key (map entry_spec block ! i))"
    by (auto simp: entry_spec_def)
  show "sp_start (map entry_spec block ! i) = 0" if "cfg_start (snd (block ! i)) = None"
    using i that by (simp add: entry_spec_def get_default_def)
  show "sp_end (map entry_spec block ! i) = - 1" if "cfg_end (snd (block ! i)) = None"
    using i that by (simp add: entry_spec_def get_default_def)
  assume d: "cfg_start (snd (block ! i)) = None \<and> cfg_end (snd (block ! i)) = None"
  show "spec_slice (map entry_spec block ! i) xs = xs" for xs :: "scalar list"
    using i d by (simp add: entry_spec_def get_default_def spec_slice_def py_slice_whole)
  show "slice_last_dim x (sp_start (map entry_spec block ! i)) (sp_end (map entry_spec block ! i))
          = Inr x"
    if "1 \<le> ndim x" for x :: "scalar tensor"
    using i d that by (simp add: entry_spec_def get_default_def slice_last_dim_whole)
qed

theorem C10_parse_defaults_witness:
  "list_all (\<lambda>e. cfg_original_key (snd e) \<noteq> None)
      [(''b'', \<lparr>cfg_original_key = Some ''obs.vel'', cfg_start = None, cfg_end = None\<rparr>)]
    \<and> parse_vector_specs
        [(''b'', \<lparr>cfg_original_key = Some ''obs.vel'', cfg_start = None, cfg_end = None\<rparr>)]
        = Inr [\<lparr>original_key = ''obs.vel'', sp_start = 0, sp_end = - 1\<rparr>]
    \<and> slice_last_dim (vec [IntV 4, IntV 5]) 0 (- 1) = Inr (vec [IntV 4, IntV 5])"
proof -
  let ?block = "[(''b'', \<lparr>cfg_original_key = Some ''obs.vel'', cfg_start = None, cfg_end = None\<rparr>)]"
  have a: "list_all (\<lambda>e. cfg_original_key (snd e) \<noteq> None) ?block" by simp
  from C10_parse_defaults [OF a] obtain specs where
    p: "parse_vector_specs ?block = Inr specs" and
    w: "\<forall>x :: scalar tensor. 1 \<le> ndim x \<longrightarrow>
          slice_last_dim x (sp_start (specs ! 0)) (sp_end (specs ! 0)) = Inr x"
    by auto
  from p have s: "specs = [\<lparr>original_key = ''obs.vel'', sp_start = 0, sp_end = - 1\<rparr>]"
    by (simp add: make_spec_def get_default_def)
  have "1 \<le> ndim (vec [IntV 4, IntV 5])" by (simp add: ndim_vec)
  with w s have "slice_last_dim (vec [IntV 4, IntV 5]) 0 (- 1) = Inr (vec [IntV 4, IntV 5])"
    by simp
  with a p s show ?thesis by simp
qed

section \<open>Which step raises what\<close>



subsection \<open>No step but a lookup raises \<open>KeyError\<close>\<close>









subsection \<open>The gather\<close>
















lemma getitem_success:
  "super_getitem self idx = Inr item \<Longrightarrow> compose_state self item = Inr s \<Longrightarrow>
     compose_action self (item(state_key self \<mapsto> Tensor s)) idx = Inr a \<Longrightarrow>
     getitem self idx = Inr ((item(state_key self \<mapsto> Tensor s))(action_key self \<mapsto> Tensor a))"
  by (simp add: getitem_def)




section \<open>The record \<open>__getitem__\<close> returns\<close>

lemmas eval_defs = compose_state_def compose_action_def episode_window_def episode_of_def
  py_getitem_def tensor_index_def clamped_indices_def py_range_def upto.simps
  action_source_def gather_def hf_select_def hf_column_def torch_stack_def torch_cat_def
  slice_last_dim_def getitem_last_def cat_parts_def ndim_def vec_def mat_def
  py_slice_def slice_bound_def

lemma ex_state:
  "compose_state ex_dataset ex_item = Inr (vec [IntV 1, IntV 2, IntV 3, IntV 4, IntV 5])"
  by (simp add: ex_dataset_def ex_item_def eval_defs)

lemma ex_action:
  "compose_action ex_dataset (ex_item(''state'' \<mapsto> Tensor s)) 1
     = Inr (mat [[IntV 20, IntV 21], [IntV 30, IntV 31], [IntV 30, IntV 31], [IntV 30, IntV 31]])"
  by (simp add: ex_dataset_def ex_item_def ex_store_def eval_defs)

lemma ex_clash_state:
  "compose_state ex_dataset_clash ex_item_clash = Inr (vec [IntV 1, IntV 2, IntV 3, IntV 4, IntV 5])"
  by (simp add: ex_dataset_clash_def ex_item_clash_def ex_dataset_def ex_item_def eval_defs)

lemma ex_clash_action:
  "compose_action ex_dataset_clash (ex_item_clash(''state'' \<mapsto> Tensor s)) 1
     = Inr (mat [[IntV 20, IntV 21], [IntV 30, IntV 31], [IntV 30, IntV 31], [IntV 30, IntV 31]])"
  by (simp add: ex_dataset_clash_def ex_item_clash_def ex_dataset_def ex_item_def ex_store_def eval_defs)

text \<open>
  C8, as the code has it. When the underlying \<open>__getitem__\<close> and both composers succeed,
  \<open>__getitem__\<close> returns the underlying record updated at the state key and then at the
  action key: the action key maps to the composed action, the state key (when it is not
  also the action key) to the composed state, every other key keeps its value, and the
  keys are those of the underlying record and these two. A value the underlying record
  held under one of the two names is replaced; two keys are new when both names are
  fresh and distinct.
\<close>

theorem C8_getitem_update:
  assumes "super_getitem self idx = Inr item"
    and "compose_state self item = Inr s"
    and "compose_action self (item(state_key self \<mapsto> Tensor s)) idx = Inr a"
  shows "\<exists>out. getitem self idx = Inr out
    \<and> out = (item(state_key self \<mapsto> Tensor s))(action_key self \<mapsto> Tensor a)
    \<and> out (action_key self) = Some (Tensor a)
    \<and> (state_key self \<noteq> action_key self \<longrightarrow> out (state_key self) = Some (Tensor s))
    \<and> (\<forall>k. k \<noteq> state_key self \<and> k \<noteq> action_key self \<longrightarrow> out k = item k)
    \<and> dom out = dom item \<union> {state_key self, action_key self}
    \<and> (state_key self \<noteq> action_key self \<and> state_key self \<notin> dom item
          \<and> action_key self \<notin> dom item \<longrightarrow>
        dom out - dom item = {state_key self, action_key self}
        \<and> card (dom out - dom item) = 2)"
proof -
  let ?out = "(item(state_key self \<mapsto> Tensor s))(action_key self \<mapsto> Tensor a)"
  have "getitem self idx = Inr ?out"
    using assms by (rule getitem_success)
  moreover have "dom ?out = dom item \<union> {state_key self, action_key self}"
    by auto
  moreover have "dom ?out - dom item = {state_key self, action_key self}
      \<and> card (dom ?out - dom item) = 2"
    if "state_key self \<noteq> action_key self \<and> state_key self \<notin> dom item
          \<and> action_key self \<notin> dom item"
  proof -
    from that have "dom ?out - dom item = {state_key self, action_key self}"
      by auto
    with that show ?thesis by simp
  qed
  ultimately show ?thesis by simp
qed

theorem C8_getitem_update_witness:
  "super_getitem ex_dataset 1 = Inr ex_item
    \<and> compose_state ex_dataset ex_item = Inr (vec [IntV 1, IntV 2, IntV 3, IntV 4, IntV 5])
    \<and> getitem ex_dataset 1 =
        Inr (ex_item(''state'' \<mapsto> Tensor (vec [IntV 1, IntV 2, IntV 3, IntV 4, IntV 5]),
                     ''action'' \<mapsto> Tensor (mat [[IntV 20, IntV 21], [IntV 30, IntV 31],
                                               [IntV 30, IntV 31], [IntV 30, IntV 31]])))"
proof -
  have k: "state_key ex_dataset = ''state''" "action_key ex_dataset = ''action''"
    by (simp_all add: ex_dataset_def)
  have a: "super_getitem ex_dataset 1 = Inr ex_item"
    by (simp add: ex_dataset_def)
  have c: "compose_action ex_dataset
      (ex_item(state_key ex_dataset \<mapsto> Tensor (vec [IntV 1, IntV 2, IntV 3, IntV 4, IntV 5]))) 1
      = Inr (mat [[IntV 20, IntV 21], [IntV 30, IntV 31], [IntV 30, IntV 31], [IntV 30, IntV 31]])"
    unfolding k by (rule ex_action)
  from C8_getitem_update [OF a ex_state c] a ex_state show ?thesis
    by (simp add: k)
qed

text \<open>
  The claim fails where a name coincides: the underlying record of \<open>ex_dataset_clash\<close>
  holds \<open>[7]\<close> under \<open>state\<close>, and the returned record holds the composed state there.
\<close>

theorem C8_key_unchanged_counterexample:
  "super_getitem ex_dataset_clash 1 = Inr ex_item_clash
    \<and> ex_item_clash ''state'' = Some (Tensor (vec [IntV 7]))
    \<and> (case getitem ex_dataset_clash 1 of Inl e \<Rightarrow> None | Inr out \<Rightarrow> out ''state'')
        = Some (Tensor (vec [IntV 1, IntV 2, IntV 3, IntV 4, IntV 5]))
    \<and> (case getitem ex_dataset_clash 1 of Inl e \<Rightarrow> None | Inr out \<Rightarrow> out ''state'')
        \<noteq> ex_item_clash ''state''"
proof -
  have k: "state_key ex_dataset_clash = ''state''" "action_key ex_dataset_clash = ''action''"
    by (simp_all add: ex_dataset_clash_def ex_dataset_def)
  have a: "super_getitem ex_dataset_clash 1 = Inr ex_item_clash"
    by (simp add: ex_dataset_clash_def)
  have b: "ex_item_clash ''state'' = Some (Tensor (vec [IntV 7]))"
    by (simp add: ex_item_clash_def)
  have "getitem ex_dataset_clash 1 =
      Inr (ex_item_clash(''state'' \<mapsto> Tensor (vec [IntV 1, IntV 2, IntV 3, IntV 4, IntV 5]),
             ''action'' \<mapsto> Tensor (mat [[IntV 20, IntV 21], [IntV 30, IntV 31],
                                       [IntV 30, IntV 31], [IntV 30, IntV 31]])))"
    using getitem_success [OF a ex_clash_state, unfolded k, OF ex_clash_action]
    by (simp add: k)
  then have c: "(case getitem ex_dataset_clash 1 of Inl e \<Rightarrow> None | Inr out \<Rightarrow> out ''state'')
      = Some (Tensor (vec [IntV 1, IntV 2, IntV 3, IntV 4, IntV 5]))"
    by simp
  from a b c show ?thesis by (simp add: vec_def)
qed

section \<open>Where the elements of a composed tensor come from\<close>























section \<open>Action composition on \<open>[H, D]\<close> tensors\<close>





























end
